theory Spec2Isabelle
  imports Main "HOL-Library.AList"
begin

section \<open>The view counter: a Worker routing to one Durable Object per host and path\<close>

text \<open>
  Two source files are embedded: \<^verbatim>\<open>src/ViewCounterDO.ts\<close> (the Durable Object that owns
  one counter) and \<^verbatim>\<open>src/index.ts\<close> (the Worker that derives the object name from the
  request and forwards to it).

  Modelling decisions.
  \<^item> A counter value is a \<open>nat\<close>, the value of the JavaScript \<open>number\<close> that the source
    holds. \<open>views++\<close> is the addition of doubles: exact while the sum is at most
    \<open>2 ^ 53\<close>, rounded to the nearest double beyond (\<open>js_increment\<close>).
  \<^item> A JavaScript string is a \<open>string\<close> whose characters are code units below 256.
  \<^item> \<open>await\<close> is sequential composition: one request is handled from start to end.
    The platform's scheduling of several requests is not part of the source.
  \<^item> A call that can throw returns \<open>error + 'a\<close>; a handler returns its outcome together
    with the state it leaves behind, since assignments made before a throw persist.
\<close>

subsection \<open>Durable storage\<close>

datatype error = StorageGetFailed | StoragePutFailed

text \<open>
  The storage of one object: the stored cells, and whether \<open>get\<close> or \<open>put\<close> reject.
  The two flags stand for the persistence service, which the source only calls.
\<close>

record storage =
  cells :: "string \<rightharpoonup> nat"
  get_fails :: bool
  put_fails :: bool

definition storage_get :: "storage \<Rightarrow> string \<Rightarrow> error + nat option" where
  "storage_get s k = (if get_fails s then Inl StorageGetFailed else Inr (cells s k))"

definition storage_put :: "storage \<Rightarrow> string \<Rightarrow> nat \<Rightarrow> error + storage" where
  "storage_put s k v =
     (if put_fails s then Inl StoragePutFailed else Inr (s\<lparr>cells := (cells s)(k \<mapsto> v)\<rparr>))"

subsection \<open>JavaScript numbers\<close>

text \<open>
  A number is an IEEE 754 double: a significand of 53 bits, sums rounded to the nearest
  double, a tie to the one with the even significand. \<open>round_double n\<close> is the double
  nearest to the natural number \<open>n\<close>: with \<open>u\<close> the distance between neighbouring
  doubles at the size of \<open>n\<close>, it is the multiple of \<open>u\<close> nearest to \<open>n\<close>.
  \<open>js_increment v\<close> is what \<open>v++\<close> leaves in a variable holding the double \<open>v\<close>.
\<close>

fun bit_length :: "nat \<Rightarrow> nat" where
  "bit_length n = (if n = 0 then 0 else Suc (bit_length (n div 2)))"

declare bit_length.simps [simp del]

definition round_double :: "nat \<Rightarrow> nat" where
  "round_double n =
     (let u = 2 ^ (bit_length n - 53); q = n div u; r = n mod u in
      if 2 * r < u then q * u
      else if u < 2 * r then (q + 1) * u
      else if even q then q * u
      else (q + 1) * u)"

definition js_increment :: "nat \<Rightarrow> nat" where
  "js_increment v = round_double (v + 1)"

subsection \<open>ViewCounterDurableObject\<close>

type_synonym headers = "(string \<times> string) list"

datatype do_body = DoNull | DoViews nat | DoText string

record do_response =
  do_status :: nat
  do_headers :: headers
  do_body :: do_body

text \<open>The object: the field \<open>views\<close> and the storage reached through \<open>ctx.storage\<close>.\<close>

record durable_object =
  views :: nat
  ctx_storage :: storage

text \<open>The constructor sets \<open>views\<close> to 0; a name never used before has empty storage.\<close>

definition new_object :: durable_object where
  "new_object =
     \<lparr>views = 0, ctx_storage = \<lparr>cells = Map.empty, get_fails = False, put_fails = False\<rparr>\<rparr>"

definition json_headers :: headers where
  "json_headers = [(''Content-Type'', ''application/json'')]"

text \<open>
  \<open>ViewCounterDurableObject.fetch\<close>. \<open>DoViews n\<close> is the body \<open>{"views": n}\<close>. The result
  pairs the outcome with the object afterwards.
\<close>

definition do_fetch :: "string \<Rightarrow> durable_object \<Rightarrow> (error + do_response) \<times> durable_object" where
  "do_fetch m d =
     (if m = ''OPTIONS'' then
        (Inr \<lparr>do_status = 200, do_headers = json_headers, do_body = DoNull\<rparr>, d)
      else
        (case storage_get (ctx_storage d) ''views'' of
           Inl e \<Rightarrow> (Inl e, d)
         | Inr r \<Rightarrow>
             (let d1 = d\<lparr>views := (case r of None \<Rightarrow> 0 | Some v \<Rightarrow> v)\<rparr> in
              if m = ''POST'' then
                (let d2 = d1\<lparr>views := js_increment (views d1)\<rparr> in
                 case storage_put (ctx_storage d2) ''views'' (views d2) of
                   Inl e \<Rightarrow> (Inl e, d2)
                 | Inr s \<Rightarrow>
                     (Inr \<lparr>do_status = 200, do_headers = json_headers,
                           do_body = DoViews (views d2)\<rparr>,
                      d2\<lparr>ctx_storage := s\<rparr>))
              else if m = ''GET'' then
                (Inr \<lparr>do_status = 200, do_headers = json_headers,
                      do_body = DoViews (views d1)\<rparr>, d1)
              else
                (Inr \<lparr>do_status = 405, do_headers = json_headers,
                      do_body = DoText ''Method Not Allowed''\<rparr>, d1))))"

text \<open>The durable value of a counter: the stored cell, 0 when there is none.\<close>

definition durable_value :: "durable_object \<Rightarrow> nat" where
  "durable_value d = (case cells (ctx_storage d) ''views'' of None \<Rightarrow> 0 | Some v \<Rightarrow> v)"

definition storage_ok :: "durable_object \<Rightarrow> bool" where
  "storage_ok d = (\<not> get_fails (ctx_storage d) \<and> \<not> put_fails (ctx_storage d))"

subsection \<open>The Worker's environment\<close>

text \<open>
  \<open>env.VIEW_COUNTER_DO\<close> maps a name to its object: \<open>idFromName\<close> followed by \<open>get\<close>
  yields the same object for the same name and creates it on first use, so every name
  has an object, \<open>new_object\<close> until it is used. \<open>fetch_log\<close> is not in the source: it
  records every \<open>stub.fetch\<close> call (object name, method), so that "no object is
  contacted" can be stated.
\<close>

record env =
  VIEW_COUNTER_DO :: "string \<Rightarrow> durable_object"
  fetch_log :: "(string \<times> string) list"

definition init_env :: env where
  "init_env = \<lparr>VIEW_COUNTER_DO = (\<lambda>name. new_object), fetch_log = []\<rparr>"

text \<open>
  The response as the caller of \<open>stub.fetch\<close> receives it: the answer to a HEAD request
  arrives without a body, whatever body the object's handler gave it.
\<close>

definition received :: "string \<Rightarrow> do_response \<Rightarrow> do_response" where
  "received m r = (if m = ''HEAD'' then r\<lparr>do_body := DoNull\<rparr> else r)"

definition stub_fetch :: "string \<Rightarrow> string \<Rightarrow> env \<Rightarrow> (error + do_response) \<times> env" where
  "stub_fetch name m e =
     (case do_fetch m (VIEW_COUNTER_DO e name) of
        (r, d) \<Rightarrow>
          ((case r of Inl err \<Rightarrow> Inl err | Inr resp \<Rightarrow> Inr (received m resp)),
           e\<lparr>VIEW_COUNTER_DO := (VIEW_COUNTER_DO e)(name := d),
             fetch_log := fetch_log e @ [(name, m)]\<rparr>))"

subsection \<open>Requests and responses of the Worker\<close>

datatype json =
  JNull | JBool bool | JNum int | JStr string | JArr "json list" | JObj "(string \<times> json) list"

text \<open>
  A request as the handler reads it: the method, the \<open>Host\<close> header (\<open>None\<close> when
  \<open>headers.get\<close> gives null), \<open>url.pathname\<close>, and the outcome of \<open>request.json()\<close>
  (\<open>Inl msg\<close> when it rejects with an error whose message is \<open>msg\<close>).
\<close>

record request =
  req_method :: string
  req_host :: "string option"
  req_pathname :: string
  req_json :: "string + json"

text \<open>
  A response body: none, a text, \<open>{"error": msg}\<close>, the serialised \<open>results\<close> record of a
  batch (a path maps to a number or to null, here \<open>None\<close>), or the body of the object's
  response passed through.
\<close>

datatype body =
  Null | Text string | ErrorJson string | ResultsJson "string \<rightharpoonup> nat option" | Passed do_body

record response =
  status :: nat
  headers :: headers
  body :: body

definition cors_headers :: headers where
  "cors_headers =
     [(''Access-Control-Allow-Origin'', ''*''),
      (''Access-Control-Allow-Methods'', ''GET, POST, OPTIONS''),
      (''Access-Control-Allow-Headers'', ''Content-Type'')]"

text \<open>Object spread \<open>{...a, ...b}\<close>: the properties of \<open>a\<close>, then those of \<open>b\<close> over them.\<close>

definition spread :: "headers \<Rightarrow> headers \<Rightarrow> headers" where
  "spread a b = fold (\<lambda>(k, v). AList.update k v) b a"

definition ascii_lower :: "char \<Rightarrow> char" where
  "ascii_lower c =
     (let n = (of_char c :: nat) in if 65 \<le> n \<and> n \<le> 90 then char_of (n + 32) else c)"

text \<open>\<open>response.headers.entries()\<close>: the names come back in lower case.\<close>

definition header_entries :: "headers \<Rightarrow> headers" where
  "header_entries hs = map (\<lambda>(k, v). (map ascii_lower k, v)) hs"

subsection \<open>Validation of a batch body\<close>

text \<open>White space as \<open>String.prototype.trim\<close> sees it, among the code units below 256.\<close>

definition js_whitespace :: "char \<Rightarrow> bool" where
  "js_whitespace c = ((of_char c :: nat) \<in> {9, 10, 11, 12, 13, 32, 160})"

definition trim :: "string \<Rightarrow> string" where
  "trim s = rev (dropWhile js_whitespace (rev (dropWhile js_whitespace s)))"

text \<open>The predicate given to \<open>some\<close>: \<open>typeof path !== 'string' || path.trim() === ''\<close>.\<close>

fun invalid_entry :: "json \<Rightarrow> bool" where
  "invalid_entry (JStr path) = (trim path = [])"
| "invalid_entry _ = True"

definition format_message :: string where
  "format_message =
     ''Invalid request format. Expected an array of path strings, e.g., ['/path1', '/path2'].''"

text \<open>
  The \<open>try\<close> block of the batch branch: the error message when the body does not parse,
  is not an array or has an invalid entry, the paths otherwise.
\<close>

definition read_paths :: "string + json \<Rightarrow> string + string list" where
  "read_paths b =
     (case b of
        Inl msg \<Rightarrow> Inl msg
      | Inr j \<Rightarrow>
          (case j of
             JArr articlePaths \<Rightarrow>
               if list_ex invalid_entry articlePaths then Inl format_message
               else Inr [path. JStr path \<leftarrow> articlePaths]
           | _ \<Rightarrow> Inl format_message))"

subsection \<open>Names of objects\<close>

text \<open>\<open>path.startsWith('/') ? path : `/${path}`\<close>\<close>

definition articlePath :: "string \<Rightarrow> string" where
  "articlePath path = (if take 1 path = ''/'' then path else ''/'' @ path)"

text \<open>\<open>`${requestHost}${articlePath}`\<close>\<close>

definition doIdName :: "string \<Rightarrow> string \<Rightarrow> string" where
  "doIdName requestHost path = requestHost @ path"

subsection \<open>The Worker's fetch handler\<close>

text \<open>
  The callback mapped over the paths of a batch. \<open>response.json()\<close> throws on a body that
  is not JSON, which the \<open>catch\<close> turns into null like a failed \<open>stub.fetch\<close>.
\<close>

definition lookup_views ::
  "string \<Rightarrow> string \<Rightarrow> (string \<rightharpoonup> nat option) \<times> env \<Rightarrow> (string \<rightharpoonup> nat option) \<times> env" where
  "lookup_views requestHost path = (\<lambda>(results, e).
     (let p = articlePath path in
      case stub_fetch (doIdName requestHost p) ''GET'' e of
        (Inl err, e') \<Rightarrow> (results(p \<mapsto> None), e')
      | (Inr r, e') \<Rightarrow>
          (case do_body r of
             DoViews n \<Rightarrow> (results(p \<mapsto> Some n), e')
           | _ \<Rightarrow> (results(p \<mapsto> None), e'))))"

definition missing_host :: response where
  "missing_host =
     \<lparr>status = 400, headers = spread json_headers cors_headers,
      body = ErrorJson ''Missing Host header''\<rparr>"

definition invalid_path_message :: string where
  "invalid_path_message =
     ''Invalid article path. Please provide a specific article path (e.g., /article/1).''"

text \<open>
  The handler. The lookups of a batch are started in the order of the list and are all
  awaited; each is a GET, so the model runs them one after the other in that order.
  An exception of \<open>stub.fetch\<close> in the single branch is not caught: the handler fails.
\<close>

definition fetch :: "request \<Rightarrow> env \<Rightarrow> (error + response) \<times> env" where
  "fetch request e =
     (if req_method request = ''OPTIONS'' then
        (Inr \<lparr>status = 200, headers = cors_headers, body = Null\<rparr>, e)
      else
        (case req_host request of
           None \<Rightarrow> (Inr missing_host, e)
         | Some requestHost \<Rightarrow>
             if requestHost = [] then (Inr missing_host, e)
             else if req_pathname request = ''/batch'' then
               (if req_method request \<noteq> ''POST'' then
                  (Inr \<lparr>status = 405,
                        headers = spread cors_headers [(''Allow'', ''POST, OPTIONS'')],
                        body = Text ''Method Not Allowed''\<rparr>, e)
                else
                  (case read_paths (req_json request) of
                     Inl msg \<Rightarrow>
                       (Inr \<lparr>status = 400, headers = spread json_headers cors_headers,
                             body = ErrorJson (''Invalid request body: '' @ msg)\<rparr>, e)
                   | Inr articlePaths \<Rightarrow>
                       (case fold (lookup_views requestHost) articlePaths (Map.empty, e) of
                          (results, e') \<Rightarrow>
                            (Inr \<lparr>status = 200, headers = spread json_headers cors_headers,
                                  body = ResultsJson results\<rparr>, e'))))
             else if req_pathname request = ''/'' \<or> req_pathname request = ''/batch'' then
               (Inr \<lparr>status = 400, headers = spread json_headers cors_headers,
                     body = ErrorJson invalid_path_message\<rparr>, e)
             else
               (case stub_fetch (doIdName requestHost (req_pathname request))
                       (req_method request) e of
                  (Inl err, e') \<Rightarrow> (Inl err, e')
                | (Inr r, e') \<Rightarrow>
                    (Inr \<lparr>status = do_status r,
                          headers = spread (header_entries (do_headers r)) cors_headers,
                          body = Passed (do_body r)\<rparr>, e'))))"

text \<open>The durable cells of every object, which is what a counter's state is.\<close>

definition durable_cells :: "env \<Rightarrow> string \<Rightarrow> (string \<rightharpoonup> nat)" where
  "durable_cells e name = cells (ctx_storage (VIEW_COUNTER_DO e name))"

text \<open>
  What a lookup of the object \<open>name\<close> yields in a batch: null when its storage read
  fails, its durable value otherwise.
\<close>

definition views_or_null :: "env \<Rightarrow> string \<Rightarrow> nat option" where
  "views_or_null e name =
     (if get_fails (ctx_storage (VIEW_COUNTER_DO e name)) then None
      else Some (durable_value (VIEW_COUNTER_DO e name)))"

text \<open>The \<open>results\<close> record in a handler's outcome (empty when there is none).\<close>

definition results_of :: "error + response \<Rightarrow> (string \<rightharpoonup> nat option)" where
  "results_of r =
     (case r of
        Inl err \<Rightarrow> Map.empty
      | Inr resp \<Rightarrow> (case body resp of ResultsJson m \<Rightarrow> m | _ \<Rightarrow> Map.empty))"

subsection \<open>The specification's wording of a well-formed batch body\<close>

text \<open>
  The specification asks for "a sequence of non-empty strings". These two functions say
  that in its words; \<open>read_paths\<close> above is what the source checks.
\<close>

fun nonempty_string :: "json \<Rightarrow> bool" where
  "nonempty_string (JStr s) = (s \<noteq> [])"
| "nonempty_string _ = False"

fun array_of_nonempty_strings :: "json \<Rightarrow> bool" where
  "array_of_nonempty_strings (JArr xs) = list_all nonempty_string xs"
| "array_of_nonempty_strings _ = False"

subsection \<open>Objects and an environment for examples\<close>

text \<open>
  An object whose storage holds a count, one whose storage reads fail, and an environment
  where \<open>a.com/p1\<close> has been counted twice and \<open>a.com/p2\<close> cannot be read.
\<close>

definition counted_object :: "nat \<Rightarrow> durable_object" where
  "counted_object n =
     \<lparr>views = 0,
      ctx_storage = \<lparr>cells = [''views'' \<mapsto> n], get_fails = False, put_fails = False\<rparr>\<rparr>"

definition unreadable_object :: durable_object where
  "unreadable_object =
     \<lparr>views = 0, ctx_storage = \<lparr>cells = Map.empty, get_fails = True, put_fails = False\<rparr>\<rparr>"

definition example_env :: env where
  "example_env =
     \<lparr>VIEW_COUNTER_DO = (\<lambda>name. new_object)
        (''a.com/p1'' := counted_object 2, ''a.com/p2'' := unreadable_object),
      fetch_log = []\<rparr>"

subsection \<open>Increments of doubles\<close>

lemma bit_length_less: "n < 2 ^ k \<Longrightarrow> bit_length n \<le> k"
proof (induction k arbitrary: n)
  case 0
  then show ?case by (simp add: bit_length.simps)
next
  case (Suc k)
  show ?case
  proof (cases "n = 0")
    case True
    then show ?thesis by (simp add: bit_length.simps)
  next
    case False
    from Suc.prems have "n div 2 < 2 ^ k" by simp
    from Suc.IH [OF this] False show ?thesis
      by (subst bit_length.simps) simp
  qed
qed

lemma bit_length_eq: "2 ^ k \<le> n \<Longrightarrow> n < 2 ^ Suc k \<Longrightarrow> bit_length n = Suc k"
proof (induction k arbitrary: n)
  case 0
  then have "n = 1" by simp
  then show ?case by (simp add: bit_length.simps)
next
  case (Suc k)
  from Suc.prems have "2 ^ k \<le> n div 2" "n div 2 < 2 ^ Suc k" "n \<noteq> 0" by auto
  with Suc.IH [of "n div 2"] show ?case
    by (subst bit_length.simps) simp
qed

lemma round_double_exact: "n \<le> 2 ^ 53 \<Longrightarrow> round_double n = n"
proof (cases "n = 2 ^ 53")
  case True
  have "bit_length n = Suc 53"
    unfolding True by (rule bit_length_eq) simp_all
  then show ?thesis by (simp add: round_double_def True)
next
  case False
  assume "n \<le> 2 ^ 53"
  with False have "n < 2 ^ 53" by simp
  then have "bit_length n - 53 = 0"
    using bit_length_less [of n 53] by simp
  then show ?thesis by (simp add: round_double_def)
qed

lemma js_increment_exact: "v < 2 ^ 53 \<Longrightarrow> js_increment v = v + 1"
  by (simp add: js_increment_def round_double_exact)

lemma js_increment_limit: "js_increment 9007199254740992 = 9007199254740992"
proof -
  have "bit_length 9007199254740993 = Suc 53"
    by (rule bit_length_eq) simp_all
  then show ?thesis
    by (simp add: js_increment_def round_double_def)
qed

subsection \<open>The object alone\<close>

lemma do_fetch_post_ok:
  assumes "storage_ok d"
  shows "do_fetch ''POST'' d =
           (Inr \<lparr>do_status = 200, do_headers = json_headers,
                 do_body = DoViews (js_increment (durable_value d))\<rparr>,
            d\<lparr>views := js_increment (durable_value d),
              ctx_storage := (ctx_storage d)\<lparr>cells :=
                 (cells (ctx_storage d))(''views'' \<mapsto> js_increment (durable_value d))\<rparr>\<rparr>)"
  using assms
  by (simp add: do_fetch_def storage_get_def storage_put_def durable_value_def storage_ok_def
      Let_def split: option.splits)

lemma post_keeps_storage_ok:
  "storage_ok d \<Longrightarrow> storage_ok (snd (do_fetch ''POST'' d))"
  by (simp add: do_fetch_post_ok) (simp add: storage_ok_def)

lemma post_durable_value:
  "storage_ok d \<Longrightarrow>
   durable_value (snd (do_fetch ''POST'' d)) = js_increment (durable_value d)"
  by (simp add: do_fetch_post_ok) (simp add: durable_value_def)

lemma posts_storage_ok:
  "storage_ok d \<Longrightarrow> storage_ok (((\<lambda>x. snd (do_fetch ''POST'' x)) ^^ n) d)"
  by (induction n) (simp_all add: post_keeps_storage_ok)

lemma posts_durable_value:
  "storage_ok d \<Longrightarrow> durable_value d + n \<le> 2 ^ 53 \<Longrightarrow>
   durable_value (((\<lambda>x. snd (do_fetch ''POST'' x)) ^^ n) d) = durable_value d + n"
proof (induction n)
  case 0
  then show ?case by simp
next
  case (Suc n)
  let ?d = "((\<lambda>x. snd (do_fetch ''POST'' x)) ^^ n) d"
  from Suc have before: "durable_value ?d = durable_value d + n" by simp
  from Suc.prems have "durable_value d + n < 2 ^ 53" by simp
  then have "js_increment (durable_value d + n) = durable_value d + n + 1"
    by (rule js_increment_exact)
  then show ?case
    using Suc.prems(1) by (simp add: post_durable_value posts_storage_ok before)
qed

lemma json_headers_list: "json_headers = [(''Content-Type'', ''application/json'')]"
  by (simp add: json_headers_def)

text \<open>
  C1, as amended. With working storage and a durable value below \<open>2 ^ 53\<close>, a POST to
  the object reads the durable value (0 when the cell is absent), adds 1, stores the sum
  in the cell \<open>views\<close> and answers with that sum; and \<open>n\<close> POSTs one after the other
  leave the durable value \<open>n\<close> greater than before as long as it does not pass
  \<open>2 ^ 53\<close>.
\<close>

theorem increment_loads_adds_persists:
  assumes "storage_ok d" and "durable_value d < 2 ^ 53" and "durable_value d + n \<le> 2 ^ 53"
  shows "fst (do_fetch ''POST'' d) =
           Inr \<lparr>do_status = 200, do_headers = [(''Content-Type'', ''application/json'')],
                do_body = DoViews (durable_value d + 1)\<rparr>
       \<and> cells (ctx_storage (snd (do_fetch ''POST'' d))) ''views'' = Some (durable_value d + 1)
       \<and> durable_value (((\<lambda>x. snd (do_fetch ''POST'' x)) ^^ n) d) = durable_value d + n"
  using assms
  by (simp add: do_fetch_post_ok posts_durable_value js_increment_exact json_headers_list)

theorem increment_loads_adds_persists_witness:
  "storage_ok (counted_object 41) \<and> durable_value (counted_object 41) < 2 ^ 53
   \<and> durable_value (counted_object 41) + 3 \<le> 2 ^ 53
   \<and> fst (do_fetch ''POST'' (counted_object 41)) =
       Inr \<lparr>do_status = 200, do_headers = [(''Content-Type'', ''application/json'')],
            do_body = DoViews 42\<rparr>
   \<and> cells (ctx_storage (snd (do_fetch ''POST'' (counted_object 41)))) ''views'' = Some 42
   \<and> durable_value (((\<lambda>x. snd (do_fetch ''POST'' x)) ^^ 3) (counted_object 41)) = 44"
proof -
  have ok: "storage_ok (counted_object 41)"
    by (simp add: storage_ok_def counted_object_def)
  have dv: "durable_value (counted_object 41) = 41"
    by (simp add: durable_value_def counted_object_def)
  have b1: "durable_value (counted_object 41) < 2 ^ 53"
    and b2: "durable_value (counted_object 41) + 3 \<le> 2 ^ 53"
    by (simp_all add: dv)
  show ?thesis
    using ok b1 b2 increment_loads_adds_persists [OF ok b1 b2] by (simp add: dv)
qed

text \<open>
  The claim C1 as it is written fails: on an object whose cell holds \<open>2 ^ 53\<close>, which is
  9007199254740992, a POST answers and stores that same value.
\<close>

theorem increment_stalls_at_two_to_53:
  "storage_ok (counted_object 9007199254740992)
   \<and> durable_value (counted_object 9007199254740992) = 9007199254740992
   \<and> fst (do_fetch ''POST'' (counted_object 9007199254740992)) =
       Inr \<lparr>do_status = 200, do_headers = [(''Content-Type'', ''application/json'')],
            do_body = DoViews 9007199254740992\<rparr>
   \<and> durable_value (snd (do_fetch ''POST'' (counted_object 9007199254740992))) =
       9007199254740992"
proof -
  have ok: "storage_ok (counted_object 9007199254740992)"
    by (simp add: storage_ok_def counted_object_def)
  have dv: "durable_value (counted_object 9007199254740992) = 9007199254740992"
    by (simp add: durable_value_def counted_object_def)
  have answer: "fst (do_fetch ''POST'' (counted_object 9007199254740992)) =
       Inr \<lparr>do_status = 200, do_headers = [(''Content-Type'', ''application/json'')],
            do_body = DoViews 9007199254740992\<rparr>"
    by (simp add: do_fetch_post_ok [OF ok] dv js_increment_limit json_headers_list)
  have stored: "durable_value (snd (do_fetch ''POST'' (counted_object 9007199254740992))) =
       9007199254740992"
    by (simp add: post_durable_value [OF ok] dv js_increment_limit)
  show ?thesis
    using ok dv answer stored by simp
qed

subsection \<open>Facts about the object, the stub and the batch loop\<close>

lemma do_fetch_flags:
  "get_fails (ctx_storage (snd (do_fetch m d))) = get_fails (ctx_storage d)"
  "put_fails (ctx_storage (snd (do_fetch m d))) = put_fails (ctx_storage d)"
  by (simp_all add: do_fetch_def storage_get_def storage_put_def Let_def split: option.splits)

lemma do_fetch_storage_not_post:
  "m \<noteq> ''POST'' \<Longrightarrow> ctx_storage (snd (do_fetch m d)) = ctx_storage d"
  by (simp add: do_fetch_def storage_get_def Let_def split: option.splits)

lemma do_fetch_get:
  "fst (do_fetch ''GET'' d) =
     (if get_fails (ctx_storage d) then Inl StorageGetFailed
      else Inr \<lparr>do_status = 200, do_headers = json_headers, do_body = DoViews (durable_value d)\<rparr>)"
  by (simp add: do_fetch_def storage_get_def durable_value_def Let_def split: option.splits)

lemma do_fetch_other:
  "m \<noteq> ''OPTIONS'' \<Longrightarrow> m \<noteq> ''POST'' \<Longrightarrow> m \<noteq> ''GET'' \<Longrightarrow>
   fst (do_fetch m d) =
     (if get_fails (ctx_storage d) then Inl StorageGetFailed
      else Inr \<lparr>do_status = 405, do_headers = json_headers, do_body = DoText ''Method Not Allowed''\<rparr>)"
  by (simp add: do_fetch_def storage_get_def Let_def split: option.splits)

lemma stub_fetch_fst:
  "fst (stub_fetch name m e) =
     (case fst (do_fetch m (VIEW_COUNTER_DO e name)) of
        Inl err \<Rightarrow> Inl err
      | Inr resp \<Rightarrow> Inr (received m resp))"
  by (simp add: stub_fetch_def split: prod.splits)

lemma received_fields:
  "do_status (received m r) = do_status r"
  "do_headers (received m r) = do_headers r"
  "do_body (received m r) = (if m = ''HEAD'' then DoNull else do_body r)"
  by (simp_all add: received_def)

lemma stub_fetch_objects:
  "VIEW_COUNTER_DO (snd (stub_fetch name m e)) =
     (VIEW_COUNTER_DO e)(name := snd (do_fetch m (VIEW_COUNTER_DO e name)))"
  by (simp add: stub_fetch_def split: prod.splits)

lemma stub_fetch_log:
  "fetch_log (snd (stub_fetch name m e)) = fetch_log e @ [(name, m)]"
  by (simp add: stub_fetch_def split: prod.splits)

lemma views_or_null_storage:
  "ctx_storage (VIEW_COUNTER_DO e1 n) = ctx_storage (VIEW_COUNTER_DO e n) \<Longrightarrow>
   views_or_null e1 n = views_or_null e n"
  by (simp add: views_or_null_def durable_value_def)

lemma lookup_views_fst:
  "fst (lookup_views h p (res, e)) =
     res(articlePath p \<mapsto> views_or_null e (doIdName h (articlePath p)))"
proof -
  let ?n = "doIdName h (articlePath p)"
  obtain r e' where sf: "stub_fetch ?n ''GET'' e = (r, e')"
    by (cases "stub_fetch ?n ''GET'' e")
  have r: "r = (if get_fails (ctx_storage (VIEW_COUNTER_DO e ?n)) then Inl StorageGetFailed
                else Inr \<lparr>do_status = 200, do_headers = json_headers,
                          do_body = DoViews (durable_value (VIEW_COUNTER_DO e ?n))\<rparr>)"
    using stub_fetch_fst [of ?n "''GET''" e] sf by (simp add: do_fetch_get received_def)
  show ?thesis
    by (simp add: lookup_views_def Let_def sf r views_or_null_def)
qed

lemma lookup_views_snd:
  "snd (lookup_views h p (res, e)) = snd (stub_fetch (doIdName h (articlePath p)) ''GET'' e)"
  by (simp add: lookup_views_def Let_def split: prod.splits sum.splits do_body.splits)

lemma lookup_views_storage:
  "ctx_storage (VIEW_COUNTER_DO (snd (lookup_views h p (res, e))) n) =
   ctx_storage (VIEW_COUNTER_DO e n)"
  by (simp add: lookup_views_snd stub_fetch_objects do_fetch_storage_not_post)

lemma lookup_views_log:
  "fetch_log (snd (lookup_views h p (res, e))) =
   fetch_log e @ [(doIdName h (articlePath p), ''GET'')]"
  by (simp add: lookup_views_snd stub_fetch_log)

lemma fold_lookup_views:
  "fold (lookup_views h) ps (res, e) = (res', e') \<Longrightarrow>
     (\<forall>n. ctx_storage (VIEW_COUNTER_DO e' n) = ctx_storage (VIEW_COUNTER_DO e n))
   \<and> res' = (\<lambda>k. if k \<in> articlePath ` set ps
                  then Some (views_or_null e (doIdName h k)) else res k)
   \<and> fetch_log e' = fetch_log e @ map (\<lambda>p. (doIdName h (articlePath p), ''GET'')) ps"
proof (induction ps arbitrary: res e)
  case Nil
  then show ?case by simp
next
  case (Cons p ps)
  obtain res1 e1 where step: "lookup_views h p (res, e) = (res1, e1)"
    by (cases "lookup_views h p (res, e)")
  have res1: "res1 = res(articlePath p \<mapsto> views_or_null e (doIdName h (articlePath p)))"
    using lookup_views_fst [of h p res e] step by simp
  have st1: "\<And>n. ctx_storage (VIEW_COUNTER_DO e1 n) = ctx_storage (VIEW_COUNTER_DO e n)"
    using lookup_views_storage [of h p res e] step by simp
  have log1: "fetch_log e1 = fetch_log e @ [(doIdName h (articlePath p), ''GET'')]"
    using lookup_views_log [of h p res e] step by simp
  have von: "\<And>n. views_or_null e1 n = views_or_null e n"
    by (rule views_or_null_storage) (rule st1)
  from Cons.prems have "fold (lookup_views h) ps (res1, e1) = (res', e')"
    by (simp add: step)
  from Cons.IH [OF this]
  have a: "\<forall>n. ctx_storage (VIEW_COUNTER_DO e' n) = ctx_storage (VIEW_COUNTER_DO e1 n)"
    and b: "res' = (\<lambda>k. if k \<in> articlePath ` set ps
                  then Some (views_or_null e1 (doIdName h k)) else res1 k)"
    and c: "fetch_log e' = fetch_log e1 @ map (\<lambda>p. (doIdName h (articlePath p), ''GET'')) ps"
    by simp_all
  show ?case
  proof (intro conjI)
    show "\<forall>n. ctx_storage (VIEW_COUNTER_DO e' n) = ctx_storage (VIEW_COUNTER_DO e n)"
      using a st1 by simp
    show "res' = (\<lambda>k. if k \<in> articlePath ` set (p # ps)
                  then Some (views_or_null e (doIdName h k)) else res k)"
      unfolding b res1 by (rule ext) (simp add: von)
    show "fetch_log e' = fetch_log e @ map (\<lambda>p. (doIdName h (articlePath p), ''GET'')) (p # ps)"
      using c log1 by simp
  qed
qed

lemma trim_Nil: "trim [] = []"
  by (simp add: trim_def)

lemma valid_entry_nonempty: "\<not> invalid_entry x \<Longrightarrow> nonempty_string x"
  by (cases x) (auto simp: trim_Nil)

lemma read_paths_malformed:
  "\<not> array_of_nonempty_strings j \<Longrightarrow> read_paths (Inr j) = Inl format_message"
proof (cases j)
  case (JArr xs)
  assume "\<not> array_of_nonempty_strings j"
  with JArr have "\<not> list_all nonempty_string xs" by simp
  then obtain x where "x \<in> set xs" "\<not> nonempty_string x"
    by (auto simp: list_all_iff)
  then have "list_ex invalid_entry xs"
    using valid_entry_nonempty by (auto simp: list_ex_iff)
  with JArr show ?thesis by (simp add: read_paths_def)
qed (simp_all add: read_paths_def)

lemma fetch_batch_rejected:
  "h \<noteq> [] \<Longrightarrow> read_paths b = Inl msg \<Longrightarrow>
   fetch \<lparr>req_method = ''POST'', req_host = Some h, req_pathname = ''/batch'', req_json = b\<rparr> e =
     (Inr \<lparr>status = 400, headers = spread json_headers cors_headers,
           body = ErrorJson (''Invalid request body: '' @ msg)\<rparr>, e)"
  by (simp add: fetch_def)

lemma fetch_batch_accepted:
  assumes "h \<noteq> []" "read_paths b = Inr ps"
  shows "fetch \<lparr>req_method = ''POST'', req_host = Some h, req_pathname = ''/batch'', req_json = b\<rparr> e =
     (Inr \<lparr>status = 200, headers = spread json_headers cors_headers,
           body = ResultsJson (fst (fold (lookup_views h) ps (Map.empty, e)))\<rparr>,
      snd (fold (lookup_views h) ps (Map.empty, e)))"
  using assms by (simp add: fetch_def split: prod.splits)

lemma batch_results:
  "fst (fold (lookup_views h) ps (Map.empty, e)) =
     (\<lambda>k. if k \<in> articlePath ` set ps then Some (views_or_null e (doIdName h k)) else None)"
proof -
  obtain res' e' where f: "fold (lookup_views h) ps (Map.empty, e) = (res', e')"
    by (cases "fold (lookup_views h) ps (Map.empty, e)")
  from fold_lookup_views [OF f] show ?thesis by (simp add: f)
qed

lemma batch_storage:
  "ctx_storage (VIEW_COUNTER_DO (snd (fold (lookup_views h) ps (res, e))) n) =
   ctx_storage (VIEW_COUNTER_DO e n)"
proof -
  obtain res' e' where f: "fold (lookup_views h) ps (res, e) = (res', e')"
    by (cases "fold (lookup_views h) ps (res, e)")
  from fold_lookup_views [OF f] show ?thesis by (simp add: f)
qed

lemma batch_log:
  "fetch_log (snd (fold (lookup_views h) ps (res, e))) =
   fetch_log e @ map (\<lambda>p. (doIdName h (articlePath p), ''GET'')) ps"
proof -
  obtain res' e' where f: "fold (lookup_views h) ps (res, e) = (res', e')"
    by (cases "fold (lookup_views h) ps (res, e)")
  from fold_lookup_views [OF f] show ?thesis by (simp add: f)
qed

subsection \<open>Pre-flight requests\<close>

text \<open>
  C10. A request with method OPTIONS, whatever its host header, path and body, gets the
  empty response with status 200 and the three cross-origin headers (any origin; the
  methods GET, POST, OPTIONS; the header Content-Type), and the environment is left as it
  was: no object is contacted and the missing-host check is never reached.
\<close>

theorem options_answered_first:
  "fetch (request\<lparr>req_method := ''OPTIONS''\<rparr>) e =
     (Inr \<lparr>status = 200,
           headers = [(''Access-Control-Allow-Origin'', ''*''),
                      (''Access-Control-Allow-Methods'', ''GET, POST, OPTIONS''),
                      (''Access-Control-Allow-Headers'', ''Content-Type'')],
           body = Null\<rparr>, e)"
  by (simp add: fetch_def cors_headers_def)

theorem options_answered_first_witness:
  "fetch \<lparr>req_method = ''OPTIONS'', req_host = None, req_pathname = ''/x'', req_json = Inl ''''\<rparr>
     init_env =
     (Inr \<lparr>status = 200,
           headers = [(''Access-Control-Allow-Origin'', ''*''),
                      (''Access-Control-Allow-Methods'', ''GET, POST, OPTIONS''),
                      (''Access-Control-Allow-Headers'', ''Content-Type'')],
           body = Null\<rparr>, init_env)"
  using options_answered_first
    [of "\<lparr>req_method = ''GET'', req_host = None, req_pathname = ''/x'', req_json = Inl ''''\<rparr>"
        init_env]
  by simp

subsection \<open>Validation of batch requests\<close>

text \<open>
  C7. A POST to \<open>/batch\<close> whose body is not an array of non-empty strings, or does not
  parse at all, is answered with status 400 and a JSON error, and the environment is left
  as it was, so no object is contacted and no counter is touched; the empty array is
  accepted, with status 200 and an empty result.
\<close>

theorem malformed_batch_rejected:
  assumes "h \<noteq> []" and "\<not> array_of_nonempty_strings j"
  shows "fetch \<lparr>req_method = ''POST'', req_host = Some h, req_pathname = ''/batch'',
                req_json = Inr j\<rparr> e =
           (Inr \<lparr>status = 400, headers = spread json_headers cors_headers,
                 body = ErrorJson (''Invalid request body: '' @ format_message)\<rparr>, e)
       \<and> fetch \<lparr>req_method = ''POST'', req_host = Some h, req_pathname = ''/batch'',
                req_json = Inl msg\<rparr> e =
           (Inr \<lparr>status = 400, headers = spread json_headers cors_headers,
                 body = ErrorJson (''Invalid request body: '' @ msg)\<rparr>, e)
       \<and> fetch \<lparr>req_method = ''POST'', req_host = Some h, req_pathname = ''/batch'',
                req_json = Inr (JArr [])\<rparr> e =
           (Inr \<lparr>status = 200, headers = spread json_headers cors_headers,
                 body = ResultsJson Map.empty\<rparr>, e)"
proof (intro conjI)
  show "fetch \<lparr>req_method = ''POST'', req_host = Some h, req_pathname = ''/batch'',
                req_json = Inl msg\<rparr> e =
           (Inr \<lparr>status = 400, headers = spread json_headers cors_headers,
                 body = ErrorJson (''Invalid request body: '' @ msg)\<rparr>, e)"
    using assms(1) by (simp add: fetch_batch_rejected read_paths_def)
  show "fetch \<lparr>req_method = ''POST'', req_host = Some h, req_pathname = ''/batch'',
                req_json = Inr j\<rparr> e =
           (Inr \<lparr>status = 400, headers = spread json_headers cors_headers,
                 body = ErrorJson (''Invalid request body: '' @ format_message)\<rparr>, e)"
    using assms by (simp add: fetch_batch_rejected read_paths_malformed)
  have "read_paths (Inr (JArr [])) = Inr []"
    by (simp add: read_paths_def)
  from fetch_batch_accepted [OF assms(1) this]
  show "fetch \<lparr>req_method = ''POST'', req_host = Some h, req_pathname = ''/batch'',
                req_json = Inr (JArr [])\<rparr> e =
           (Inr \<lparr>status = 200, headers = spread json_headers cors_headers,
                 body = ResultsJson Map.empty\<rparr>, e)"
    by simp
qed

theorem malformed_batch_rejected_witness:
  "''a.com'' \<noteq> [] \<and> \<not> array_of_nonempty_strings (JArr [JStr ''ok'', JNum 5])
   \<and> \<not> array_of_nonempty_strings (JArr [JStr '''', JStr ''/x''])
   \<and> fetch \<lparr>req_method = ''POST'', req_host = Some ''a.com'', req_pathname = ''/batch'',
             req_json = Inr (JArr [JStr ''ok'', JNum 5])\<rparr> init_env =
       (Inr \<lparr>status = 400, headers = spread json_headers cors_headers,
             body = ErrorJson (''Invalid request body: '' @ format_message)\<rparr>, init_env)
   \<and> fetch \<lparr>req_method = ''POST'', req_host = Some ''a.com'', req_pathname = ''/batch'',
             req_json = Inr (JArr [JStr '''', JStr ''/x''])\<rparr> init_env =
       (Inr \<lparr>status = 400, headers = spread json_headers cors_headers,
             body = ErrorJson (''Invalid request body: '' @ format_message)\<rparr>, init_env)
   \<and> fetch \<lparr>req_method = ''POST'', req_host = Some ''a.com'', req_pathname = ''/batch'',
             req_json = Inr (JArr [])\<rparr> init_env =
       (Inr \<lparr>status = 200, headers = spread json_headers cors_headers,
             body = ResultsJson Map.empty\<rparr>, init_env)"
proof -
  have h: "''a.com'' \<noteq> []" by simp
  have a: "\<not> array_of_nonempty_strings (JArr [JStr ''ok'', JNum 5])" by simp
  have b: "\<not> array_of_nonempty_strings (JArr [JStr '''', JStr ''/x''])" by simp
  show ?thesis
    using h a b malformed_batch_rejected [OF h a, of init_env]
      malformed_batch_rejected [OF h b, of init_env]
    by simp
qed

subsection \<open>Batch requests\<close>

lemma batch_response:
  assumes "h \<noteq> []" "read_paths b = Inr ps"
  shows "fst (fetch \<lparr>req_method = ''POST'', req_host = Some h, req_pathname = ''/batch'',
                     req_json = b\<rparr> e) =
     Inr \<lparr>status = 200, headers = spread json_headers cors_headers,
          body = ResultsJson (\<lambda>k. if k \<in> articlePath ` set ps
                                   then Some (views_or_null e (doIdName h k)) else None)\<rparr>"
  using assms by (simp add: fetch_batch_accepted batch_results)

lemma batch_results_of:
  assumes "h \<noteq> []" "read_paths b = Inr ps"
  shows "results_of (fst (fetch \<lparr>req_method = ''POST'', req_host = Some h,
                                  req_pathname = ''/batch'', req_json = b\<rparr> e)) =
     (\<lambda>k. if k \<in> articlePath ` set ps then Some (views_or_null e (doIdName h k)) else None)"
  using assms by (simp add: batch_response results_of_def)

text \<open>
  The lookups of a batch finish in an order the source does not fix. The result record
  depends on the set of paths only, so the order in which the model runs them is
  immaterial.
\<close>

lemma batch_results_order:
  "set ps = set qs \<Longrightarrow>
   fst (fold (lookup_views h) ps (Map.empty, e)) = fst (fold (lookup_views h) qs (Map.empty, e))"
  by (simp add: batch_results)

text \<open>
  C8. In an accepted batch the response has status 200 and carries the result record; the
  entry of each input path, under its normalised form, is null when the storage read of
  that path's object fails and the object's durable value otherwise. An entry depends on
  its own object only, so a failing lookup changes no other entry.
\<close>

theorem batch_failure_isolated:
  assumes "h \<noteq> []" and "read_paths b = Inr ps" and "p \<in> set ps"
  shows "fst (fetch \<lparr>req_method = ''POST'', req_host = Some h, req_pathname = ''/batch'',
                     req_json = b\<rparr> e) =
           Inr \<lparr>status = 200, headers = spread json_headers cors_headers,
                body = ResultsJson (results_of (fst (fetch \<lparr>req_method = ''POST'',
                  req_host = Some h, req_pathname = ''/batch'', req_json = b\<rparr> e)))\<rparr>
       \<and> results_of (fst (fetch \<lparr>req_method = ''POST'', req_host = Some h,
                                  req_pathname = ''/batch'', req_json = b\<rparr> e)) (articlePath p) =
           Some (if get_fails (ctx_storage (VIEW_COUNTER_DO e (doIdName h (articlePath p))))
                 then None
                 else Some (durable_value (VIEW_COUNTER_DO e (doIdName h (articlePath p)))))"
proof
  show "fst (fetch \<lparr>req_method = ''POST'', req_host = Some h, req_pathname = ''/batch'',
                     req_json = b\<rparr> e) =
           Inr \<lparr>status = 200, headers = spread json_headers cors_headers,
                body = ResultsJson (results_of (fst (fetch \<lparr>req_method = ''POST'',
                  req_host = Some h, req_pathname = ''/batch'', req_json = b\<rparr> e)))\<rparr>"
    unfolding batch_results_of [OF assms(1,2)] by (rule batch_response [OF assms(1,2)])
  show "results_of (fst (fetch \<lparr>req_method = ''POST'', req_host = Some h,
                                  req_pathname = ''/batch'', req_json = b\<rparr> e)) (articlePath p) =
           Some (if get_fails (ctx_storage (VIEW_COUNTER_DO e (doIdName h (articlePath p))))
                 then None
                 else Some (durable_value (VIEW_COUNTER_DO e (doIdName h (articlePath p)))))"
    using assms(3) by (simp add: batch_results_of [OF assms(1,2)] views_or_null_def)
qed

lemma read_two_paths:
  "read_paths (Inr (JArr [JStr ''/p1'', JStr ''/p2''])) = Inr [''/p1'', ''/p2'']"
  by (simp add: read_paths_def trim_def js_whitespace_def)

theorem batch_failure_isolated_witness:
  "''a.com'' \<noteq> []
   \<and> read_paths (Inr (JArr [JStr ''/p1'', JStr ''/p2''])) = Inr [''/p1'', ''/p2'']
   \<and> ''/p1'' \<in> set [''/p1'', ''/p2''] \<and> ''/p2'' \<in> set [''/p1'', ''/p2'']
   \<and> fst (fetch \<lparr>req_method = ''POST'', req_host = Some ''a.com'', req_pathname = ''/batch'',
                  req_json = Inr (JArr [JStr ''/p1'', JStr ''/p2''])\<rparr> example_env) =
       Inr \<lparr>status = 200, headers = spread json_headers cors_headers,
            body = ResultsJson (results_of (fst (fetch \<lparr>req_method = ''POST'',
              req_host = Some ''a.com'', req_pathname = ''/batch'',
              req_json = Inr (JArr [JStr ''/p1'', JStr ''/p2''])\<rparr> example_env)))\<rparr>
   \<and> results_of (fst (fetch \<lparr>req_method = ''POST'', req_host = Some ''a.com'',
        req_pathname = ''/batch'',
        req_json = Inr (JArr [JStr ''/p1'', JStr ''/p2''])\<rparr> example_env)) ''/p1'' = Some (Some 2)
   \<and> results_of (fst (fetch \<lparr>req_method = ''POST'', req_host = Some ''a.com'',
        req_pathname = ''/batch'',
        req_json = Inr (JArr [JStr ''/p1'', JStr ''/p2''])\<rparr> example_env)) ''/p2'' = Some None"
proof -
  have h: "''a.com'' \<noteq> []" by simp
  have m1: "''/p1'' \<in> set [''/p1'', ''/p2'']" by simp
  have m2: "''/p2'' \<in> set [''/p1'', ''/p2'']" by simp
  have o1: "VIEW_COUNTER_DO example_env ''a.com/p1'' = counted_object 2"
    by (simp add: example_env_def)
  have o2: "VIEW_COUNTER_DO example_env ''a.com/p2'' = unreadable_object"
    by (simp add: example_env_def)
  have v1: "\<not> get_fails (ctx_storage (counted_object 2))" "durable_value (counted_object 2) = 2"
    by (simp_all add: counted_object_def durable_value_def)
  have v2: "get_fails (ctx_storage unreadable_object)"
    by (simp add: unreadable_object_def)
  have a1: "articlePath ''/p1'' = ''/p1''" and a2: "articlePath ''/p2'' = ''/p2''"
    by (simp_all add: articlePath_def)
  note t1 = batch_failure_isolated [OF h read_two_paths m1, of example_env]
  note t2 = batch_failure_isolated [OF h read_two_paths m2, of example_env]
  show ?thesis
    using h read_two_paths m1 m2 t1 t2
    by (simp add: a1 a2 doIdName_def o1 o2 v1 v2)
qed

lemma articlePath_fun:
  "articlePath = (\<lambda>x. if take 1 x = ''/'' then x else ''/'' @ x)"
  by (rule ext) (simp add: articlePath_def)

text \<open>
  C9, as amended. In an accepted batch the keys of the result record are exactly the
  normalised forms of the input paths, a path that starts with \<open>/\<close> as it is and any
  other with \<open>/\<close> put in front. So the record has one entry for each distinct normalised
  path: input paths that are equal, or that normalise to the same string, share one entry.
\<close>

theorem batch_keys_are_normalised_paths:
  assumes "h \<noteq> []" and "read_paths b = Inr ps"
  shows "dom (results_of (fst (fetch \<lparr>req_method = ''POST'', req_host = Some h,
                                       req_pathname = ''/batch'', req_json = b\<rparr> e))) =
           (\<lambda>x. if take 1 x = ''/'' then x else ''/'' @ x) ` set ps
       \<and> card (dom (results_of (fst (fetch \<lparr>req_method = ''POST'', req_host = Some h,
                                       req_pathname = ''/batch'', req_json = b\<rparr> e)))) =
           length (remdups (map (\<lambda>x. if take 1 x = ''/'' then x else ''/'' @ x) ps))"
proof -
  have d: "dom (results_of (fst (fetch \<lparr>req_method = ''POST'', req_host = Some h,
                                       req_pathname = ''/batch'', req_json = b\<rparr> e))) =
           articlePath ` set ps"
    by (auto simp: batch_results_of [OF assms] dom_def)
  have "card (articlePath ` set ps) = length (remdups (map articlePath ps))"
    using card_set [of "map articlePath ps"] by simp
  with d show ?thesis by (simp add: articlePath_fun)
qed

lemma read_three_paths:
  "read_paths (Inr (JArr [JStr ''/page1'', JStr ''page1'', JStr ''about''])) =
     Inr [''/page1'', ''page1'', ''about'']"
  by (simp add: read_paths_def trim_def js_whitespace_def)

theorem batch_keys_are_normalised_paths_witness:
  "''a.com'' \<noteq> []
   \<and> read_paths (Inr (JArr [JStr ''/page1'', JStr ''page1'', JStr ''about''])) =
       Inr [''/page1'', ''page1'', ''about'']
   \<and> dom (results_of (fst (fetch \<lparr>req_method = ''POST'', req_host = Some ''a.com'',
         req_pathname = ''/batch'',
         req_json = Inr (JArr [JStr ''/page1'', JStr ''page1'', JStr ''about''])\<rparr>
         example_env))) = {''/page1'', ''/about''}
   \<and> card (dom (results_of (fst (fetch \<lparr>req_method = ''POST'', req_host = Some ''a.com'',
         req_pathname = ''/batch'',
         req_json = Inr (JArr [JStr ''/page1'', JStr ''page1'', JStr ''about''])\<rparr>
         example_env)))) = 2"
proof -
  have h: "''a.com'' \<noteq> []" by simp
  have keys: "(\<lambda>x. if take 1 x = ''/'' then x else ''/'' @ x) ` set [''/page1'', ''page1'', ''about''] =
              {''/page1'', ''/about''}"
    by auto
  have number: "length (remdups (map (\<lambda>x. if take 1 x = ''/'' then x else ''/'' @ x)
                  [''/page1'', ''page1'', ''about''])) = 2"
    by simp
  show ?thesis
    using h read_three_paths
      batch_keys_are_normalised_paths [OF h read_three_paths, of example_env]
    unfolding keys number by simp
qed

lemma read_slash_and_bare:
  "read_paths (Inr (JArr [JStr ''/about'', JStr ''about''])) = Inr [''/about'', ''about'']"
  by (simp add: read_paths_def trim_def js_whitespace_def)

text \<open>
  The claim C9 as it is written fails: the body \<open>["/about", "about"]\<close> is accepted with
  its two input paths, and the result record has the one entry \<open>/about\<close>.
\<close>

theorem two_paths_one_entry:
  "read_paths (Inr (JArr [JStr ''/about'', JStr ''about''])) = Inr [''/about'', ''about'']
   \<and> length [''/about'', ''about''] = 2
   \<and> dom (results_of (fst (fetch \<lparr>req_method = ''POST'', req_host = Some ''a.com'',
         req_pathname = ''/batch'',
         req_json = Inr (JArr [JStr ''/about'', JStr ''about''])\<rparr> init_env))) = {''/about''}
   \<and> card (dom (results_of (fst (fetch \<lparr>req_method = ''POST'', req_host = Some ''a.com'',
         req_pathname = ''/batch'',
         req_json = Inr (JArr [JStr ''/about'', JStr ''about''])\<rparr> init_env)))) = 1"
proof -
  have h: "''a.com'' \<noteq> []" by simp
  have "dom (results_of (fst (fetch \<lparr>req_method = ''POST'', req_host = Some ''a.com'',
         req_pathname = ''/batch'',
         req_json = Inr (JArr [JStr ''/about'', JStr ''about''])\<rparr> init_env))) = {''/about''}"
    by (auto simp: batch_results_of [OF h read_slash_and_bare] dom_def articlePath_def)
  then show ?thesis
    using read_slash_and_bare by simp
qed

subsection \<open>The single branch\<close>

lemma fetch_single:
  assumes "m \<noteq> ''OPTIONS''" "h \<noteq> []" "p \<noteq> ''/batch''" "p \<noteq> ''/''"
  shows "fetch \<lparr>req_method = m, req_host = Some h, req_pathname = p, req_json = b\<rparr> e =
     (case fst (do_fetch m (VIEW_COUNTER_DO e (doIdName h p))) of
        Inl err \<Rightarrow> Inl err
      | Inr r \<Rightarrow> Inr \<lparr>status = do_status r,
                      headers = spread (header_entries (do_headers r)) cors_headers,
                      body = Passed (if m = ''HEAD'' then DoNull else do_body r)\<rparr>,
      snd (stub_fetch (doIdName h p) m e))"
proof -
  obtain r e' where sf: "stub_fetch (doIdName h p) m e = (r, e')"
    by (cases "stub_fetch (doIdName h p) m e")
  have r: "r = (case fst (do_fetch m (VIEW_COUNTER_DO e (doIdName h p))) of
                  Inl err \<Rightarrow> Inl err | Inr resp \<Rightarrow> Inr (received m resp))"
    using stub_fetch_fst [of "doIdName h p" m e] sf by simp
  show ?thesis
    using assms by (simp add: fetch_def sf r received_fields split: sum.splits)
qed

text \<open>
  Where a request can change stored cells: only a POST of the single branch does, and
  only in the object named by its host and path.
\<close>

lemma fetch_storage:
  "ctx_storage (VIEW_COUNTER_DO (snd (fetch req e)) n) = ctx_storage (VIEW_COUNTER_DO e n)
   \<or> (req_method req = ''POST'' \<and> req_pathname req \<noteq> ''/batch'' \<and> req_pathname req \<noteq> ''/''
      \<and> (\<exists>h. req_host req = Some h \<and> h \<noteq> [] \<and> n = doIdName h (req_pathname req)))"
proof (cases "req_method req = ''OPTIONS''")
  case True
  then show ?thesis by (simp add: fetch_def)
next
  case opt: False
  show ?thesis
  proof (cases "req_host req")
    case None
    with opt show ?thesis by (simp add: fetch_def)
  next
    case (Some h)
    show ?thesis
    proof (cases "h = []")
      case True
      with opt Some show ?thesis by (simp add: fetch_def)
    next
      case host: False
      show ?thesis
      proof (cases "req_pathname req = ''/batch''")
        case True
        with opt Some host show ?thesis
          by (auto simp: fetch_def split: sum.splits prod.splits dest: fold_lookup_views)
      next
        case nb: False
        show ?thesis
        proof (cases "req_pathname req = ''/''")
          case True
          with opt Some host nb show ?thesis by (simp add: fetch_def)
        next
          case False
          have req: "req = \<lparr>req_method = req_method req, req_host = Some h,
                            req_pathname = req_pathname req, req_json = req_json req\<rparr>"
            using Some by simp
          have s: "snd (fetch req e) =
                   snd (stub_fetch (doIdName h (req_pathname req)) (req_method req) e)"
            by (subst req, subst fetch_single [OF opt host nb False]) simp
          show ?thesis
            using Some host nb False
            by (auto simp: s stub_fetch_objects do_fetch_storage_not_post)
        qed
      qed
    qed
  qed
qed

lemma fetch_keeps_cells:
  assumes "req_method req \<noteq> ''POST'' \<or> req_pathname req = ''/batch'' \<or> req_pathname req = ''/''"
  shows "durable_cells (snd (fetch req e)) = durable_cells e"
proof (rule ext)
  fix n
  from fetch_storage [of req e n] assms
  have "ctx_storage (VIEW_COUNTER_DO (snd (fetch req e)) n) = ctx_storage (VIEW_COUNTER_DO e n)"
    by auto
  then show "durable_cells (snd (fetch req e)) n = durable_cells e n"
    by (simp add: durable_cells_def)
qed

lemma passed_headers:
  "spread (header_entries json_headers) cors_headers =
     [(''content-type'', ''application/json''),
      (''Access-Control-Allow-Origin'', ''*''),
      (''Access-Control-Allow-Methods'', ''GET, POST, OPTIONS''),
      (''Access-Control-Allow-Headers'', ''Content-Type'')]"
  by code_simp

subsection \<open>Methods other than GET, POST and OPTIONS\<close>

text \<open>
  C5, as amended. A request with a host, a path other than \<open>/\<close> and \<open>/batch\<close>, and a
  method that is none of GET, POST and OPTIONS is forwarded to the object named by host
  and path, and the stored cells of every object stay as they were. When the object's
  storage read works, the object answers 405 with the text "Method Not Allowed" and the
  Worker passes that on with the object's content type and the three cross-origin
  headers; for the method HEAD the answer arrives, and is passed on, without a body. When
  the read fails, the handler fails with it.
\<close>

theorem unsupported_method_forwarded:
  assumes "m \<noteq> ''GET''" and "m \<noteq> ''POST''" and "m \<noteq> ''OPTIONS''"
    and "h \<noteq> []" and "p \<noteq> ''/''" and "p \<noteq> ''/batch''"
  shows "fetch_log (snd (fetch \<lparr>req_method = m, req_host = Some h, req_pathname = p,
                                 req_json = b\<rparr> e)) = fetch_log e @ [(h @ p, m)]
       \<and> durable_cells (snd (fetch \<lparr>req_method = m, req_host = Some h, req_pathname = p,
                                     req_json = b\<rparr> e)) = durable_cells e
       \<and> fst (fetch \<lparr>req_method = m, req_host = Some h, req_pathname = p, req_json = b\<rparr> e) =
           (if get_fails (ctx_storage (VIEW_COUNTER_DO e (h @ p)))
            then Inl StorageGetFailed
            else Inr \<lparr>status = 405,
                      headers = [(''content-type'', ''application/json''),
                                 (''Access-Control-Allow-Origin'', ''*''),
                                 (''Access-Control-Allow-Methods'', ''GET, POST, OPTIONS''),
                                 (''Access-Control-Allow-Headers'', ''Content-Type'')],
                      body = Passed (if m = ''HEAD'' then DoNull
                                     else DoText ''Method Not Allowed'')\<rparr>)"
proof (intro conjI)
  note single = fetch_single [OF assms(3,4,6,5), of b e]
  show "fetch_log (snd (fetch \<lparr>req_method = m, req_host = Some h, req_pathname = p,
                                 req_json = b\<rparr> e)) = fetch_log e @ [(h @ p, m)]"
    by (simp add: single stub_fetch_log doIdName_def)
  show "durable_cells (snd (fetch \<lparr>req_method = m, req_host = Some h, req_pathname = p,
                                     req_json = b\<rparr> e)) = durable_cells e"
    using assms(2) by (simp add: fetch_keeps_cells)
  show "fst (fetch \<lparr>req_method = m, req_host = Some h, req_pathname = p, req_json = b\<rparr> e) =
           (if get_fails (ctx_storage (VIEW_COUNTER_DO e (h @ p)))
            then Inl StorageGetFailed
            else Inr \<lparr>status = 405,
                      headers = [(''content-type'', ''application/json''),
                                 (''Access-Control-Allow-Origin'', ''*''),
                                 (''Access-Control-Allow-Methods'', ''GET, POST, OPTIONS''),
                                 (''Access-Control-Allow-Headers'', ''Content-Type'')],
                      body = Passed (if m = ''HEAD'' then DoNull
                                     else DoText ''Method Not Allowed'')\<rparr>)"
    by (simp add: single do_fetch_other [OF assms(3,2,1)] passed_headers doIdName_def)
qed

lemma new_object_reads: "\<not> get_fails (ctx_storage new_object)"
  by (simp add: new_object_def)

theorem unsupported_method_forwarded_witness:
  "''DELETE'' \<noteq> ''GET'' \<and> ''DELETE'' \<noteq> ''POST'' \<and> ''DELETE'' \<noteq> ''OPTIONS''
   \<and> ''HEAD'' \<noteq> ''GET'' \<and> ''HEAD'' \<noteq> ''POST'' \<and> ''HEAD'' \<noteq> ''OPTIONS''
   \<and> ''a.com'' \<noteq> [] \<and> ''/x'' \<noteq> ''/'' \<and> ''/x'' \<noteq> ''/batch''
   \<and> fetch_log (snd (fetch \<lparr>req_method = ''DELETE'', req_host = Some ''a.com'',
        req_pathname = ''/x'', req_json = Inl ''''\<rparr> init_env)) = [(''a.com/x'', ''DELETE'')]
   \<and> durable_cells (snd (fetch \<lparr>req_method = ''DELETE'', req_host = Some ''a.com'',
        req_pathname = ''/x'', req_json = Inl ''''\<rparr> init_env)) = durable_cells init_env
   \<and> fst (fetch \<lparr>req_method = ''DELETE'', req_host = Some ''a.com'',
        req_pathname = ''/x'', req_json = Inl ''''\<rparr> init_env) =
       Inr \<lparr>status = 405,
            headers = [(''content-type'', ''application/json''),
                       (''Access-Control-Allow-Origin'', ''*''),
                       (''Access-Control-Allow-Methods'', ''GET, POST, OPTIONS''),
                       (''Access-Control-Allow-Headers'', ''Content-Type'')],
            body = Passed (DoText ''Method Not Allowed'')\<rparr>
   \<and> fst (fetch \<lparr>req_method = ''HEAD'', req_host = Some ''a.com'',
        req_pathname = ''/x'', req_json = Inl ''''\<rparr> init_env) =
       Inr \<lparr>status = 405,
            headers = [(''content-type'', ''application/json''),
                       (''Access-Control-Allow-Origin'', ''*''),
                       (''Access-Control-Allow-Methods'', ''GET, POST, OPTIONS''),
                       (''Access-Control-Allow-Headers'', ''Content-Type'')],
            body = Passed DoNull\<rparr>
   \<and> fst (fetch \<lparr>req_method = ''DELETE'', req_host = Some ''a.com'',
        req_pathname = ''/p2'', req_json = Inl ''''\<rparr> example_env) = Inl StorageGetFailed"
proof -
  have a: "''DELETE'' \<noteq> ''GET''" "''DELETE'' \<noteq> ''POST''" "''DELETE'' \<noteq> ''OPTIONS''"
    "''a.com'' \<noteq> []" "''/x'' \<noteq> ''/''" "''/x'' \<noteq> ''/batch''"
    by simp_all
  have a': "''HEAD'' \<noteq> ''GET''" "''HEAD'' \<noteq> ''POST''" "''HEAD'' \<noteq> ''OPTIONS''"
    "''a.com'' \<noteq> []" "''/x'' \<noteq> ''/''" "''/x'' \<noteq> ''/batch''"
    by simp_all
  have a'': "''DELETE'' \<noteq> ''GET''" "''DELETE'' \<noteq> ''POST''" "''DELETE'' \<noteq> ''OPTIONS''"
    "''a.com'' \<noteq> []" "''/p2'' \<noteq> ''/''" "''/p2'' \<noteq> ''/batch''"
    by simp_all
  have unreadable: "get_fails (ctx_storage (VIEW_COUNTER_DO example_env ''a.com/p2''))"
    by (simp add: example_env_def unreadable_object_def)
  note t = unsupported_method_forwarded [OF a, of "Inl ''''" init_env]
  note t' = unsupported_method_forwarded [OF a', of "Inl ''''" init_env]
  note t'' = unsupported_method_forwarded [OF a'', of "Inl ''''" example_env]
  have "fst (fetch \<lparr>req_method = ''DELETE'', req_host = Some ''a.com'',
        req_pathname = ''/p2'', req_json = Inl ''''\<rparr> example_env) = Inl StorageGetFailed"
    using t'' unreadable by simp
  then show ?thesis
    using a a' t t' by (simp add: init_env_def new_object_reads)
qed

text \<open>
  The claim C5 as it is written fails: a DELETE on \<open>/x\<close> is not stopped in the Worker,
  the object \<open>a.com/x\<close> receives it.
\<close>

theorem delete_reaches_object:
  "fetch_log init_env = []
   \<and> fetch_log (snd (fetch \<lparr>req_method = ''DELETE'', req_host = Some ''a.com'',
        req_pathname = ''/x'', req_json = Inl ''''\<rparr> init_env)) = [(''a.com/x'', ''DELETE'')]"
proof -
  have "fetch_log (snd (fetch \<lparr>req_method = ''DELETE'', req_host = Some ''a.com'',
        req_pathname = ''/x'', req_json = Inl ''''\<rparr> init_env)) =
        fetch_log init_env @ [(doIdName ''a.com'' ''/x'', ''DELETE'')]"
    by (subst fetch_single) (simp_all add: stub_fetch_log)
  then show ?thesis by (simp add: init_env_def doIdName_def)
qed

subsection \<open>The root path and the batch path\<close>

text \<open>
  C6, as amended. A request on the root path \<open>/\<close> whose method is not OPTIONS is
  answered with status 400 and a JSON error, and the environment is left as it was. A
  request on \<open>/batch\<close> with a host and a method other than POST and OPTIONS is answered
  with status 405 and the text "Method Not Allowed", the environment again left as it
  was. No request on \<open>/\<close> or \<open>/batch\<close>, whatever its method, changes a stored cell of
  any object.
\<close>

theorem reserved_paths_rejected:
  assumes "m \<noteq> ''OPTIONS''"
  shows "fetch \<lparr>req_method = m, req_host = hopt, req_pathname = ''/'', req_json = b\<rparr> e =
           (Inr \<lparr>status = 400, headers = spread json_headers cors_headers,
                 body = ErrorJson (if hopt = None \<or> hopt = Some []
                                   then ''Missing Host header'' else invalid_path_message)\<rparr>, e)
       \<and> (h \<noteq> [] \<and> m \<noteq> ''POST'' \<longrightarrow>
            fetch \<lparr>req_method = m, req_host = Some h, req_pathname = ''/batch'',
                   req_json = b\<rparr> e =
              (Inr \<lparr>status = 405,
                    headers = spread cors_headers [(''Allow'', ''POST, OPTIONS'')],
                    body = Text ''Method Not Allowed''\<rparr>, e))
       \<and> durable_cells (snd (fetch \<lparr>req_method = m', req_host = hopt',
                                     req_pathname = ''/batch'', req_json = b'\<rparr> e)) =
           durable_cells e
       \<and> durable_cells (snd (fetch \<lparr>req_method = m', req_host = hopt',
                                     req_pathname = ''/'', req_json = b'\<rparr> e)) =
           durable_cells e"
proof (intro conjI)
  show "fetch \<lparr>req_method = m, req_host = hopt, req_pathname = ''/'', req_json = b\<rparr> e =
           (Inr \<lparr>status = 400, headers = spread json_headers cors_headers,
                 body = ErrorJson (if hopt = None \<or> hopt = Some []
                                   then ''Missing Host header'' else invalid_path_message)\<rparr>, e)"
    using assms by (cases hopt) (simp_all add: fetch_def missing_host_def)
  show "h \<noteq> [] \<and> m \<noteq> ''POST'' \<longrightarrow>
            fetch \<lparr>req_method = m, req_host = Some h, req_pathname = ''/batch'',
                   req_json = b\<rparr> e =
              (Inr \<lparr>status = 405,
                    headers = spread cors_headers [(''Allow'', ''POST, OPTIONS'')],
                    body = Text ''Method Not Allowed''\<rparr>, e)"
    using assms by (simp add: fetch_def)
  show "durable_cells (snd (fetch \<lparr>req_method = m', req_host = hopt',
                                     req_pathname = ''/batch'', req_json = b'\<rparr> e)) =
           durable_cells e"
    by (rule fetch_keeps_cells) simp
  show "durable_cells (snd (fetch \<lparr>req_method = m', req_host = hopt',
                                     req_pathname = ''/'', req_json = b'\<rparr> e)) =
           durable_cells e"
    by (rule fetch_keeps_cells) simp
qed

theorem reserved_paths_rejected_witness:
  "''POST'' \<noteq> ''OPTIONS'' \<and> ''GET'' \<noteq> ''OPTIONS'' \<and> ''a.com'' \<noteq> [] \<and> ''GET'' \<noteq> ''POST''
   \<and> fetch \<lparr>req_method = ''POST'', req_host = Some ''a.com'', req_pathname = ''/'',
             req_json = Inl ''''\<rparr> example_env =
       (Inr \<lparr>status = 400, headers = spread json_headers cors_headers,
             body = ErrorJson invalid_path_message\<rparr>, example_env)
   \<and> fetch \<lparr>req_method = ''GET'', req_host = Some ''a.com'', req_pathname = ''/batch'',
             req_json = Inl ''''\<rparr> example_env =
       (Inr \<lparr>status = 405, headers = spread cors_headers [(''Allow'', ''POST, OPTIONS'')],
             body = Text ''Method Not Allowed''\<rparr>, example_env)
   \<and> durable_cells (snd (fetch \<lparr>req_method = ''POST'', req_host = Some ''a.com'',
        req_pathname = ''/batch'', req_json = Inr (JArr [JStr ''/p1''])\<rparr> example_env)) =
       durable_cells example_env"
proof -
  have a: "''POST'' \<noteq> ''OPTIONS''" and b: "''GET'' \<noteq> ''OPTIONS''"
    and c: "''a.com'' \<noteq> []" and d: "''GET'' \<noteq> ''POST''"
    by simp_all
  note t1 = reserved_paths_rejected [OF a, of "Some ''a.com''" "Inl ''''" example_env]
  note t2 = reserved_paths_rejected [OF b, of _ _ example_env "''a.com''" "''POST''"
      "Some ''a.com''" "Inr (JArr [JStr ''/p1''])"]
  show ?thesis
    using a b c d t1 t2 by simp
qed

text \<open>
  The claim C6 as it is written fails: a GET on \<open>/batch\<close> is answered with status 405 and
  a text body, not with 400 and a JSON error.
\<close>

theorem get_batch_is_405:
  "fst (fetch \<lparr>req_method = ''GET'', req_host = Some ''a.com'', req_pathname = ''/batch'',
               req_json = Inl ''''\<rparr> init_env) =
     Inr \<lparr>status = 405,
          headers = [(''Access-Control-Allow-Origin'', ''*''),
                     (''Access-Control-Allow-Methods'', ''GET, POST, OPTIONS''),
                     (''Access-Control-Allow-Headers'', ''Content-Type''),
                     (''Allow'', ''POST, OPTIONS'')],
          body = Text ''Method Not Allowed''\<rparr>"
  by (simp add: fetch_def spread_def cors_headers_def)

subsection \<open>Reading a counter\<close>

text \<open>
  C4. A GET for a host and a path (other than \<open>/\<close> and \<open>/batch\<close>), the object's storage
  read working, is answered with status 200 and the value of the stored cell \<open>views\<close> of
  the object named by host and path, 0 when there is no such cell. The stored cells of
  every object stay as they were, and the same GET asked again gets the same answer.
\<close>

theorem get_returns_durable_value:
  assumes "h \<noteq> []" and "p \<noteq> ''/''" and "p \<noteq> ''/batch''"
    and "\<not> get_fails (ctx_storage (VIEW_COUNTER_DO e (doIdName h p)))"
  shows "fst (fetch \<lparr>req_method = ''GET'', req_host = Some h, req_pathname = p, req_json = b\<rparr> e) =
           Inr \<lparr>status = 200, headers = spread (header_entries json_headers) cors_headers,
                body = Passed (DoViews (case durable_cells e (doIdName h p) ''views'' of
                                          None \<Rightarrow> 0 | Some v \<Rightarrow> v))\<rparr>
       \<and> durable_cells (snd (fetch \<lparr>req_method = ''GET'', req_host = Some h, req_pathname = p,
                                     req_json = b\<rparr> e)) = durable_cells e
       \<and> fst (fetch \<lparr>req_method = ''GET'', req_host = Some h, req_pathname = p, req_json = b\<rparr>
                (snd (fetch \<lparr>req_method = ''GET'', req_host = Some h, req_pathname = p,
                             req_json = b\<rparr> e))) =
         fst (fetch \<lparr>req_method = ''GET'', req_host = Some h, req_pathname = p, req_json = b\<rparr> e)"
proof -
  let ?req = "\<lparr>req_method = ''GET'', req_host = Some h, req_pathname = p, req_json = b\<rparr>"
  have opt: "''GET'' \<noteq> ''OPTIONS''" by simp
  note single = fetch_single [OF opt assms(1,3,2), of b]
  have answer: "fst (fetch ?req x) =
      Inr \<lparr>status = 200, headers = spread (header_entries json_headers) cors_headers,
           body = Passed (DoViews (case durable_cells x (doIdName h p) ''views'' of
                                     None \<Rightarrow> 0 | Some v \<Rightarrow> v))\<rparr>"
    if "\<not> get_fails (ctx_storage (VIEW_COUNTER_DO x (doIdName h p)))" for x
    using that by (simp add: single do_fetch_get durable_value_def durable_cells_def)
  have same: "ctx_storage (VIEW_COUNTER_DO (snd (fetch ?req e)) n) =
              ctx_storage (VIEW_COUNTER_DO e n)" for n
    using fetch_storage [of ?req e n] by simp
  have cells: "durable_cells (snd (fetch ?req e)) = durable_cells e"
    by (rule ext) (simp add: durable_cells_def same)
  have again: "\<not> get_fails (ctx_storage (VIEW_COUNTER_DO (snd (fetch ?req e)) (doIdName h p)))"
    using assms(4) by (simp add: same)
  show ?thesis
    by (simp add: answer [OF assms(4)] answer [OF again] cells)
qed

theorem get_returns_durable_value_witness:
  "''a.com'' \<noteq> [] \<and> ''/p1'' \<noteq> ''/'' \<and> ''/p1'' \<noteq> ''/batch'' \<and> ''/x'' \<noteq> ''/'' \<and> ''/x'' \<noteq> ''/batch''
   \<and> \<not> get_fails (ctx_storage (VIEW_COUNTER_DO example_env (doIdName ''a.com'' ''/p1'')))
   \<and> \<not> get_fails (ctx_storage (VIEW_COUNTER_DO init_env (doIdName ''a.com'' ''/x'')))
   \<and> fst (fetch \<lparr>req_method = ''GET'', req_host = Some ''a.com'', req_pathname = ''/x'',
                  req_json = Inl ''''\<rparr> init_env) =
       Inr \<lparr>status = 200, headers = spread (header_entries json_headers) cors_headers,
            body = Passed (DoViews 0)\<rparr>
   \<and> fst (fetch \<lparr>req_method = ''GET'', req_host = Some ''a.com'', req_pathname = ''/p1'',
                  req_json = Inl ''''\<rparr> example_env) =
       Inr \<lparr>status = 200, headers = spread (header_entries json_headers) cors_headers,
            body = Passed (DoViews 2)\<rparr>
   \<and> durable_cells (snd (fetch \<lparr>req_method = ''GET'', req_host = Some ''a.com'',
        req_pathname = ''/p1'', req_json = Inl ''''\<rparr> example_env)) = durable_cells example_env"
proof -
  have a: "''a.com'' \<noteq> []" "''/p1'' \<noteq> ''/''" "''/p1'' \<noteq> ''/batch''" by simp_all
  have a': "''a.com'' \<noteq> []" "''/x'' \<noteq> ''/''" "''/x'' \<noteq> ''/batch''" by simp_all
  have r: "\<not> get_fails (ctx_storage (VIEW_COUNTER_DO example_env (doIdName ''a.com'' ''/p1'')))"
    by (simp add: example_env_def doIdName_def counted_object_def)
  have r': "\<not> get_fails (ctx_storage (VIEW_COUNTER_DO init_env (doIdName ''a.com'' ''/x'')))"
    by (simp add: init_env_def new_object_def)
  have c: "durable_cells example_env (doIdName ''a.com'' ''/p1'') ''views'' = Some 2"
    by (simp add: durable_cells_def example_env_def doIdName_def counted_object_def)
  have c': "durable_cells init_env (doIdName ''a.com'' ''/x'') ''views'' = None"
    by (simp add: durable_cells_def init_env_def new_object_def)
  note t = get_returns_durable_value [OF a r, of "Inl ''''"]
  note t' = get_returns_durable_value [OF a' r', of "Inl ''''"]
  show ?thesis
    using a a' r r' t t' by (simp add: c c')
qed

subsection \<open>Names of objects and the isolation of hosts\<close>

lemma read_slashed_and_plain:
  "read_paths (Inr (JArr [JStr ''/about'', JStr ''contact/us''])) =
     Inr [''/about'', ''contact/us'']"
  by (simp add: read_paths_def trim_def js_whitespace_def)

text \<open>
  C3. The object a request goes to is named by the host followed by the normalised path.
  In a batch the normalised path is the listed path when that starts with \<open>/\<close>, and the
  listed path with \<open>/\<close> put in front otherwise. In the single branch it is \<open>url.pathname\<close>
  as it is, which starts with \<open>/\<close> and so is its own normal form. For two different
  hosts the names for one path differ, and a request of one host on a path, a POST
  included, leaves the stored cells of the other host's object for that path as they were.
\<close>

theorem hosts_never_share_counter:
  assumes "h1 \<noteq> h2"
  shows "doIdName h1 q = h1 @ q \<and> doIdName h2 q = h2 @ q \<and> doIdName h1 q \<noteq> doIdName h2 q
       \<and> articlePath x = (if take 1 x = ''/'' then x else ''/'' @ x)
       \<and> durable_cells (snd (fetch \<lparr>req_method = m, req_host = Some h1, req_pathname = q,
                                     req_json = b\<rparr> e)) (h2 @ q) =
           durable_cells e (h2 @ q)
       \<and> (h1 \<noteq> [] \<and> m \<noteq> ''OPTIONS'' \<and> q \<noteq> ''/'' \<and> q \<noteq> ''/batch'' \<longrightarrow>
            fetch_log (snd (fetch \<lparr>req_method = m, req_host = Some h1, req_pathname = q,
                                    req_json = b\<rparr> e)) =
              fetch_log e @ [(h1 @ q, m)])
       \<and> (h1 \<noteq> [] \<and> read_paths b = Inr ps \<longrightarrow>
            fetch_log (snd (fetch \<lparr>req_method = ''POST'', req_host = Some h1,
                                    req_pathname = ''/batch'', req_json = b\<rparr> e)) =
              fetch_log e @
                map (\<lambda>x. (h1 @ (if take 1 x = ''/'' then x else ''/'' @ x), ''GET'')) ps)"
proof (intro conjI)
  show "doIdName h1 q = h1 @ q" and "doIdName h2 q = h2 @ q"
    by (simp_all add: doIdName_def)
  show "doIdName h1 q \<noteq> doIdName h2 q"
    using assms by (simp add: doIdName_def)
  show "articlePath x = (if take 1 x = ''/'' then x else ''/'' @ x)"
    by (simp add: articlePath_def)
  let ?req = "\<lparr>req_method = m, req_host = Some h1, req_pathname = q, req_json = b\<rparr>"
  have "doIdName h2 q \<noteq> doIdName h1 q"
    using assms by (simp add: doIdName_def)
  with fetch_storage [of ?req e "doIdName h2 q"]
  have "ctx_storage (VIEW_COUNTER_DO (snd (fetch ?req e)) (doIdName h2 q)) =
        ctx_storage (VIEW_COUNTER_DO e (doIdName h2 q))"
    by auto
  then show "durable_cells (snd (fetch ?req e)) (h2 @ q) = durable_cells e (h2 @ q)"
    by (simp add: durable_cells_def doIdName_def)
  show "h1 \<noteq> [] \<and> m \<noteq> ''OPTIONS'' \<and> q \<noteq> ''/'' \<and> q \<noteq> ''/batch'' \<longrightarrow>
            fetch_log (snd (fetch ?req e)) = fetch_log e @ [(h1 @ q, m)]"
    by (simp add: fetch_single stub_fetch_log doIdName_def)
  show "h1 \<noteq> [] \<and> read_paths b = Inr ps \<longrightarrow>
            fetch_log (snd (fetch \<lparr>req_method = ''POST'', req_host = Some h1,
                                    req_pathname = ''/batch'', req_json = b\<rparr> e)) =
              fetch_log e @
                map (\<lambda>x. (h1 @ (if take 1 x = ''/'' then x else ''/'' @ x), ''GET'')) ps"
    by (simp add: fetch_batch_accepted batch_log doIdName_def articlePath_def)
qed

theorem hosts_never_share_counter_witness:
  "''a.com'' \<noteq> ''b.com'' \<and> ''a.com'' \<noteq> [] \<and> ''POST'' \<noteq> ''OPTIONS''
   \<and> ''/x'' \<noteq> ''/'' \<and> ''/x'' \<noteq> ''/batch''
   \<and> read_paths (Inr (JArr [JStr ''/about'', JStr ''contact/us''])) =
       Inr [''/about'', ''contact/us'']
   \<and> doIdName ''a.com'' ''/x'' = ''a.com/x'' \<and> doIdName ''b.com'' ''/x'' = ''b.com/x''
   \<and> articlePath ''contact/us'' = ''/contact/us''
   \<and> durable_cells (snd (fetch \<lparr>req_method = ''POST'', req_host = Some ''a.com'',
        req_pathname = ''/x'', req_json = Inl ''''\<rparr> init_env)) ''a.com/x'' ''views'' = Some 1
   \<and> durable_cells (snd (fetch \<lparr>req_method = ''POST'', req_host = Some ''a.com'',
        req_pathname = ''/x'', req_json = Inl ''''\<rparr> init_env)) ''b.com/x'' ''views'' = None
   \<and> fetch_log (snd (fetch \<lparr>req_method = ''POST'', req_host = Some ''a.com'',
        req_pathname = ''/x'', req_json = Inl ''''\<rparr> init_env)) = [(''a.com/x'', ''POST'')]
   \<and> fetch_log (snd (fetch \<lparr>req_method = ''POST'', req_host = Some ''a.com'',
        req_pathname = ''/batch'',
        req_json = Inr (JArr [JStr ''/about'', JStr ''contact/us''])\<rparr> init_env)) =
       [(''a.com/about'', ''GET''), (''a.com/contact/us'', ''GET'')]"
proof -
  have ne: "''a.com'' \<noteq> ''b.com''" by simp
  have one: "js_increment 0 = 1"
    using js_increment_exact [of 0] by simp
  have inc: "durable_cells (snd (fetch \<lparr>req_method = ''POST'', req_host = Some ''a.com'',
        req_pathname = ''/x'', req_json = Inl ''''\<rparr> init_env)) ''a.com/x'' ''views'' = Some 1"
    by (simp add: fetch_def stub_fetch_def do_fetch_def storage_get_def storage_put_def
        init_env_def new_object_def doIdName_def durable_cells_def Let_def one)
  have none: "durable_cells init_env ''b.com/x'' ''views'' = None"
    by (simp add: durable_cells_def init_env_def new_object_def)
  note t1 = hosts_never_share_counter
    [OF ne, of "''/x''" "''contact/us''" "''POST''" "Inl ''''" init_env]
  note t2 = hosts_never_share_counter
    [OF ne, of "''/x''" "''contact/us''" "''POST''"
      "Inr (JArr [JStr ''/about'', JStr ''contact/us''])" init_env
      "[''/about'', ''contact/us'']"]
  have log0: "fetch_log init_env = []"
    by (simp add: init_env_def)
  show ?thesis
    using ne inc t1 t2 read_slashed_and_plain
    by (simp add: none log0)
qed

end
